theory Spec2Isabelle
  imports Main
begin

section \<open>A shallow embedding of proxy.go\<close>

text \<open>
  The program is one Go file: three HTTP handlers registered in \<^verbatim>\<open>main\<close>
  (\<^verbatim>\<open>/open\<close>, \<^verbatim>\<open>/test\<close>, \<^verbatim>\<open>/style\<close>) and two helpers,
  \<^verbatim>\<open>HasFileWithPrefixExceptExt\<close> and \<^verbatim>\<open>openPath\<close>. Each handler is
  embedded as a function from the configuration, the host and the request's query to the
  response it writes, paired with the list of effects it has on the host, in order.

  The Go standard library is not part of the program. What the handlers use of it is
  modelled here from its documented behaviour: package \<^verbatim>\<open>strings\<close>,
  \<^verbatim>\<open>path/filepath\<close> as built for a Unix host (separator \<^verbatim>\<open>/\<close>, no volume
  names), \<^verbatim>\<open>fmt\<close> for the verbs the program's format strings contain, and the
  response writer of \<^verbatim>\<open>net/http\<close>. The file system and the process table are the
  host: \<^verbatim>\<open>os.Stat\<close>, \<^verbatim>\<open>filepath.Glob\<close> and \<^verbatim>\<open>cmd.Start\<close> are
  fields of a record, so every theorem holds for every file system.
\<close>

subsection \<open>Package strings\<close>

definition HasPrefix :: "string \<Rightarrow> string \<Rightarrow> bool" where
  "HasPrefix s pre = (length pre \<le> length s \<and> take (length pre) s = pre)"

definition HasSuffix :: "string \<Rightarrow> string \<Rightarrow> bool" where
  "HasSuffix s suf = (length suf \<le> length s \<and> drop (length s - length suf) s = suf)"

text \<open>\<^verbatim>\<open>strings.Join(elems, sep)\<close>.\<close>

fun strings_Join :: "string list \<Rightarrow> string \<Rightarrow> string" where
  "strings_Join [] sep = []"
| "strings_Join [e] sep = e"
| "strings_Join (e # es) sep = e @ sep @ strings_Join es sep"

subsection \<open>Package path/filepath (Unix)\<close>

text \<open>The elements of a path: what stands between its separators.\<close>

fun elements :: "string \<Rightarrow> string list" where
  "elements [] = [[]]"
| "elements (c # cs) =
     (if c = CHR ''/'' then [] # elements cs
      else (case elements cs of [] \<Rightarrow> [[c]] | e # es \<Rightarrow> (c # e) # es))"

definition IsAbs :: "string \<Rightarrow> bool" where
  "IsAbs path = HasPrefix path ''/''"

text \<open>
  \<^verbatim>\<open>filepath.Clean\<close> reads the path element by element and writes the cleaned
  path: an empty element and \<^verbatim>\<open>.\<close> are skipped; \<^verbatim>\<open>..\<close> removes the last
  element written when there is one that is not itself \<^verbatim>\<open>..\<close>, is kept at the
  head of a path that is not rooted, and is dropped at the head of a rooted one; every
  other element is written. \<open>out\<close> is the list of the elements written so far.
\<close>

fun clean_elements :: "bool \<Rightarrow> string list \<Rightarrow> string list \<Rightarrow> string list" where
  "clean_elements rooted out [] = out"
| "clean_elements rooted out (e # es) =
     (if e = [] \<or> e = ''.'' then clean_elements rooted out es
      else if e = ''..'' then
        (if out \<noteq> [] \<and> last out \<noteq> ''..'' then clean_elements rooted (butlast out) es
         else if \<not> rooted then clean_elements rooted (out @ [''..'']) es
         else clean_elements rooted out es)
      else clean_elements rooted (out @ [e]) es)"

definition Clean :: "string \<Rightarrow> string" where
  "Clean path =
     (let rooted = IsAbs path;
          out = clean_elements rooted [] (elements path)
      in if rooted then ''/'' @ strings_Join out ''/''
         else if out = [] then ''.''
         else strings_Join out ''/'')"

text \<open>
  \<^verbatim>\<open>filepath.Join\<close> drops the leading empty elements, joins the rest with the
  separator and cleans the result; with nothing left it is the empty string.
\<close>

fun Join :: "string list \<Rightarrow> string" where
  "Join [] = []"
| "Join (e # es) = (if e \<noteq> [] then Clean (strings_Join (e # es) ''/'') else Join es)"

text \<open>
  \<^verbatim>\<open>filepath.Base\<close>: the last element of the path, after the trailing separators
  are removed; \<^verbatim>\<open>.\<close> for the empty path and \<^verbatim>\<open>/\<close> for a path of separators
  only.
\<close>

definition Base :: "string \<Rightarrow> string" where
  "Base path =
     (if path = [] then ''.''
      else let stripped = rev (dropWhile (\<lambda>c. c = CHR ''/'') (rev path));
               lastel = rev (takeWhile (\<lambda>c. c \<noteq> CHR ''/'') (rev stripped))
           in if lastel = [] then ''/'' else lastel)"

text \<open>\<^verbatim>\<open>hasMeta\<close> of \<^verbatim>\<open>path/filepath\<close>: the path contains one of the
  characters that make a pattern of it, \<^verbatim>\<open>*\<close>, \<^verbatim>\<open>?\<close>, \<^verbatim>\<open>[\<close> and the
  backslash.\<close>

definition hasMeta :: "string \<Rightarrow> bool" where
  "hasMeta path =
     list_ex (\<lambda>c. c = CHR ''*'' \<or> c = CHR ''?'' \<or> c = CHR ''['' \<or> c = CHR 0x5C) path"

subsection \<open>Package fmt\<close>

text \<open>
  \<^verbatim>\<open>fmt.Sprintf\<close> on string operands. The format strings of the program contain
  the verbs \<^verbatim>\<open>%s\<close> and \<^verbatim>\<open>%v\<close> only (the operand of \<^verbatim>\<open>%v\<close> is an error,
  taken here as its message); both print the operand as it is, and an operand is never
  read as a format again. The other cases are fmt's error forms: a verb with no operand
  left, a lone \<^verbatim>\<open>%\<close> at the end, operands left over, and a verb that does not
  apply to a string. Flags, widths and the string verbs \<^verbatim>\<open>%q\<close> and \<^verbatim>\<open>%x\<close>
  are not modelled: no format string of the program has them.
\<close>

fun extra_operands :: "string list \<Rightarrow> string" where
  "extra_operands [] = []"
| "extra_operands [a] = ''string='' @ a"
| "extra_operands (a # as) = ''string='' @ a @ '', '' @ extra_operands as"

fun Sprintf :: "string \<Rightarrow> string list \<Rightarrow> string" where
  "Sprintf [] [] = []"
| "Sprintf [] (a # as) = ''%!(EXTRA '' @ extra_operands (a # as) @ '')''"
| "Sprintf (c # fs) args =
     (if c \<noteq> CHR ''%'' then c # Sprintf fs args
      else (case fs of
              [] \<Rightarrow> ''%!(NOVERB)'' @ Sprintf [] args
            | v # fs' \<Rightarrow>
                if v = CHR ''%'' then CHR ''%'' # Sprintf fs' args
                else (case args of
                        [] \<Rightarrow> ''%!'' @ [v] @ ''(MISSING)'' @ Sprintf fs' []
                      | a # as \<Rightarrow>
                          (if v = CHR ''s'' \<or> v = CHR ''v'' then a
                           else ''%!'' @ [v] @ ''(string='' @ a @ '')'') @ Sprintf fs' as)))"

subsection \<open>The host: file system, processes, standard output\<close>

text \<open>\<^verbatim>\<open>os.FileInfo\<close>: the program reads \<^verbatim>\<open>IsDir\<close> only.\<close>

record FileInfo =
  IsDir :: bool

text \<open>
  The host answers the three calls that leave the process. \<open>os_Stat\<close> is
  \<^verbatim>\<open>os.Stat\<close>: \<open>None\<close> is a non-nil error (the path does not exist, or cannot
  be read). \<open>filepath_Glob\<close> is \<^verbatim>\<open>filepath.Glob\<close>: the paths that match the
  pattern, or \<open>None\<close> for \<^verbatim>\<open>ErrBadPattern\<close>, the only error it returns.
  \<open>cmd_Start\<close> is \<^verbatim>\<open>exec.Command(name, args...).Start()\<close>: \<open>None\<close> when the
  process has started, \<open>Some msg\<close> for an error with that message.
\<close>

record host =
  GOOS :: string
  os_Stat :: "string \<Rightarrow> FileInfo option"
  filepath_Glob :: "string \<Rightarrow> string list option"
  cmd_Start :: "string \<Rightarrow> string list \<Rightarrow> string option"

text \<open>What a handler does to the host, in the order it does it.\<close>

datatype effect =
  Stat string
| Glob string
| Start string "string list"
| Stdout string

subsection \<open>Package net/http: query values and the response writer\<close>

text \<open>\<^verbatim>\<open>url.Values\<close> is a map from a key to its values; \<^verbatim>\<open>Get\<close> is the first
  value of the key, or the empty string when the key has none.\<close>

type_synonym Values = "string \<rightharpoonup> string list"

definition Get :: "Values \<Rightarrow> string \<Rightarrow> string" where
  "Get v key = (case v key of None \<Rightarrow> [] | Some [] \<Rightarrow> [] | Some (x # _) \<Rightarrow> x)"

text \<open>The response: status 0 stands for a header not written yet.\<close>

record ResponseWriter =
  status :: nat
  header :: "(string \<times> string) list"
  body :: string

abbreviation StatusOK :: nat where "StatusOK \<equiv> 200"
abbreviation StatusNoContent :: nat where "StatusNoContent \<equiv> 204"
abbreviation StatusBadRequest :: nat where "StatusBadRequest \<equiv> 400"
abbreviation StatusNotFound :: nat where "StatusNotFound \<equiv> 404"
abbreviation StatusInternalServerError :: nat where "StatusInternalServerError \<equiv> 500"

definition new_response :: ResponseWriter where
  "new_response = \<lparr>status = 0, header = [], body = []\<rparr>"

definition Header_Del :: "string \<Rightarrow> ResponseWriter \<Rightarrow> ResponseWriter" where
  "Header_Del k w = w\<lparr>header := filter (\<lambda>kv. fst kv \<noteq> k) (header w)\<rparr>"

definition Header_Add :: "string \<Rightarrow> string \<Rightarrow> ResponseWriter \<Rightarrow> ResponseWriter" where
  "Header_Add k v w = w\<lparr>header := header w @ [(k, v)]\<rparr>"

definition Header_Set :: "string \<Rightarrow> string \<Rightarrow> ResponseWriter \<Rightarrow> ResponseWriter" where
  "Header_Set k v w = Header_Add k v (Header_Del k w)"

definition WriteHeader :: "nat \<Rightarrow> ResponseWriter \<Rightarrow> ResponseWriter" where
  "WriteHeader code w = (if status w = 0 then w\<lparr>status := code\<rparr> else w)"

definition Write :: "string \<Rightarrow> ResponseWriter \<Rightarrow> ResponseWriter" where
  "Write s w = (let w' = WriteHeader StatusOK w in w'\<lparr>body := body w' @ s\<rparr>)"

text \<open>\<^verbatim>\<open>http.Error\<close>: plain text, the status, and the message on a line.\<close>

definition http_Error :: "ResponseWriter \<Rightarrow> string \<Rightarrow> nat \<Rightarrow> ResponseWriter" where
  "http_Error w msg code =
     Write (msg @ [CHR 0x0A])
       (WriteHeader code
         (Header_Set ''X-Content-Type-Options'' ''nosniff''
           (Header_Set ''Content-Type'' ''text/plain; charset=utf-8''
             (Header_Del ''Content-Length'' w))))"

subsection \<open>The program\<close>

text \<open>The three package variables, as the handlers find them: \<^verbatim>\<open>main\<close> has parsed
  the flags and replaced the base path by its absolute form before it registers a handler.\<close>

record config =
  basePath :: string
  port :: string
  token :: string

text \<open>The loop of \<^verbatim>\<open>HasFileWithPrefixExceptExt\<close> over the matches.\<close>

fun range_files :: "string list \<Rightarrow> string \<Rightarrow> bool" where
  "range_files [] excludeExt = False"
| "range_files (f # files) excludeExt =
     (if \<not> HasSuffix f excludeExt then True else range_files files excludeExt)"

text \<open>\<open>None\<close> is the error of \<^verbatim>\<open>filepath.Glob\<close>, returned as it is.\<close>

definition HasFileWithPrefixExceptExt ::
  "host \<Rightarrow> string \<Rightarrow> string \<Rightarrow> string \<Rightarrow> bool option \<times> effect list" where
  "HasFileWithPrefixExceptExt h dir pre excludeExt =
     (let pattern = Join [dir, pre] in
      (case filepath_Glob h pattern of
         None \<Rightarrow> (None, [Glob pattern])
       | Some files \<Rightarrow> (Some (range_files files excludeExt), [Glob pattern])))"

text \<open>\<open>None\<close> is the nil error: the process has started.\<close>

definition openPath :: "host \<Rightarrow> string \<Rightarrow> string option \<times> effect list" where
  "openPath h path =
     (let cmd = (if GOOS h = ''windows'' then (''explorer'', [path])
                 else if GOOS h = ''darwin'' then (''open'', [path])
                 else (''xdg-open'', [path]))
      in (cmd_Start h (fst cmd) (snd cmd), [Start (fst cmd) (snd cmd)]))"

definition open_handler :: "config \<Rightarrow> host \<Rightarrow> Values \<Rightarrow> ResponseWriter \<times> effect list" where
  "open_handler cfg h q =
     (let w = new_response;
          name = Get q ''name'';
          givenToken = Get q ''token''
      in if name = [] then
           (http_Error w ''Missing ?name= parameter'' StatusBadRequest, [])
         else if token cfg \<noteq> [] \<and> token cfg \<noteq> givenToken then
           (http_Error w ''Invalid Token'' StatusBadRequest, [])
         else
           let cleanName = Clean name in
           if IsAbs name then
             (http_Error w ''Invalid folder/file name'' StatusBadRequest,
              [Stdout (Sprintf (''Base path: %s'' @ [CHR 0x0A]) [cleanName]),
               Stdout (Sprintf (''Base path: %s'' @ [CHR 0x0A]) [name])])
           else
             let fullPath = Join [basePath cfg, cleanName];
                 info = os_Stat h fullPath
             in if (case info of None \<Rightarrow> True | Some i \<Rightarrow> \<not> IsDir i) then
                  (http_Error w ''Not Found'' StatusNotFound, [Stat fullPath])
                else
                  (case openPath h fullPath of
                     (Some err, es) \<Rightarrow>
                       (http_Error w (Sprintf ''Failed to open: %v'' [err])
                          StatusInternalServerError,
                        Stat fullPath # es)
                   | (None, es) \<Rightarrow>
                       (WriteHeader StatusNoContent w, Stat fullPath # es)))"

definition svgTpl :: string where
  "svgTpl = ''<svg viewBox='0 0 16 16' xmlns='http://www.w3.org/2000/svg' font-family='monospace'><rect width='16' height='16' fill='%s' /><text x='1' y='12'>%s</text></svg>''"

definition green_svg :: string where
  "green_svg = ''<svg viewBox='0 0 16 16' xmlns='http://www.w3.org/2000/svg'><rect width='16' height='16' fill='green' /></svg>''"

definition test_handler :: "config \<Rightarrow> host \<Rightarrow> Values \<Rightarrow> ResponseWriter \<times> effect list" where
  "test_handler cfg h q =
     (let w = new_response;
          name = Get q ''name'';
          glob = Get q ''glob'';
          givenToken = Get q ''token''
      in if name = [] then
           (http_Error w ''Missing ?name= parameter'' StatusBadRequest, [])
         else if token cfg \<noteq> [] \<and> token cfg \<noteq> givenToken then
           (http_Error w ''Invalid Token'' StatusBadRequest, [])
         else
           let cleanName = Clean name in
           if IsAbs name then
             (http_Error w ''Invalid folder/file name'' StatusBadRequest,
              [Stdout (Sprintf (''Base path: %s'' @ [CHR 0x0A]) [cleanName]),
               Stdout (Sprintf (''Base path: %s'' @ [CHR 0x0A]) [name])])
           else
             let fullPath = Join [basePath cfg, cleanName] in
             (case os_Stat h fullPath of
                None \<Rightarrow>
                  (Write (Sprintf svgTpl [''red'', glob])
                     (WriteHeader StatusOK (Header_Add ''Content-Type'' ''image/svg+xml'' w)),
                   [Stat fullPath])
              | Some _ \<Rightarrow>
                  if glob \<noteq> [] then
                    let globBase = Base glob in
                    (case HasFileWithPrefixExceptExt h fullPath globBase ''.txt'' of
                       (None, es) \<Rightarrow>
                         (http_Error w ''Bad Glob'' StatusBadRequest, Stat fullPath # es)
                     | (Some ok, es) \<Rightarrow>
                         if ok then
                           (Write (Sprintf svgTpl [''green'', glob])
                              (WriteHeader StatusOK
                                (Header_Add ''Content-Type'' ''image/svg+xml'' w)),
                            Stat fullPath # es)
                         else
                           (Write (Sprintf svgTpl [''orange'', glob])
                              (WriteHeader StatusOK
                                (Header_Add ''Content-Type'' ''image/svg+xml'' w)),
                            Stat fullPath # es))
                  else
                    (Write green_svg
                       (WriteHeader StatusOK (Header_Add ''Content-Type'' ''image/svg+xml'' w)),
                     [Stat fullPath])))"

definition cssTpl :: string where
  "cssTpl = ''.%s { display: initial !important; }''"

definition style_handler :: "config \<Rightarrow> Values \<Rightarrow> ResponseWriter \<times> effect list" where
  "style_handler cfg q =
     (let w = new_response;
          class = Get q ''class'';
          givenToken = Get q ''token''
      in if class = [] then
           (http_Error w ''Missing ?class= parameter'' StatusBadRequest, [])
         else if token cfg \<noteq> [] \<and> token cfg \<noteq> givenToken then
           (http_Error w ''Invalid Token'' StatusBadRequest, [])
         else
           (Write (Sprintf cssTpl [class])
              (WriteHeader StatusOK (Header_Add ''Content-Type'' ''text/css'' w)), []))"

subsection \<open>The responses the specification names\<close>

text \<open>A plain-text error response, as \<^verbatim>\<open>http.Error\<close> leaves it on a fresh writer.\<close>

definition plain_error :: "nat \<Rightarrow> string \<Rightarrow> ResponseWriter" where
  "plain_error code msg =
     \<lparr>status = code,
      header = [(''Content-Type'', ''text/plain; charset=utf-8''),
                (''X-Content-Type-Options'', ''nosniff'')],
      body = msg @ [CHR 0x0A]\<rparr>"

text \<open>A 200 response carrying a vector image.\<close>

definition svg_image :: "string \<Rightarrow> ResponseWriter" where
  "svg_image s = \<lparr>status = 200, header = [(''Content-Type'', ''image/svg+xml'')], body = s\<rparr>"

text \<open>The badge with a label: a square filled with the colour, and the label as its text.\<close>

definition labelled_badge :: "string \<Rightarrow> string \<Rightarrow> string" where
  "labelled_badge colour label =
     ''<svg viewBox='0 0 16 16' xmlns='http://www.w3.org/2000/svg' font-family='monospace'><rect width='16' height='16' fill=''
     @ [CHR 0x27] @ colour @ [CHR 0x27] @ '' /><text x='1' y='12'>'' @ label @ ''</text></svg>''"

text \<open>
  Lexical containment, as the specification words the check the program does not make:
  the path is the base, or starts with the base followed by a separator.
\<close>

definition lexically_inside :: "string \<Rightarrow> string \<Rightarrow> bool" where
  "lexically_inside base p =
     (p = base \<or> HasPrefix p (if base = ''/'' then base else base @ ''/''))"

text \<open>The path the name of a request resolves to: cleaned, then joined onto the base.\<close>

definition resolved_path :: "config \<Rightarrow> Values \<Rightarrow> string" where
  "resolved_path cfg q = Join [basePath cfg, Clean (Get q ''name'')]"

text \<open>The program that \<^verbatim>\<open>openPath\<close> starts, by the operating system of the host.\<close>

definition opener :: "host \<Rightarrow> string" where
  "opener h = (if GOOS h = ''windows'' then ''explorer''
               else if GOOS h = ''darwin'' then ''open'' else ''xdg-open'')"

text \<open>The token check of the three handlers lets the request through.\<close>

definition token_passes :: "config \<Rightarrow> Values \<Rightarrow> bool" where
  "token_passes cfg q = (token cfg = [] \<or> token cfg = Get q ''token'')"

subsection \<open>An example installation\<close>

text \<open>The configuration of the specification's end-to-end example, and a Linux host
  with one project directory, one regular file, and a directory outside the base.\<close>

definition example_config :: config where
  "example_config = \<lparr>basePath = ''/home/u/Projects'', port = ''1234'', token = ''secret''\<rparr>"

definition example_host :: host where
  "example_host =
     \<lparr>GOOS = ''linux'',
      os_Stat = (\<lambda>p. if p = ''/home/u/Projects/site-a'' \<or> p = ''/home/etc''
                        then Some \<lparr>IsDir = True\<rparr>
                      else if p = ''/home/u/Projects/notes.txt'' then Some \<lparr>IsDir = False\<rparr>
                      else None),
      filepath_Glob = (\<lambda>pat. if pat = ''/home/u/Projects/site-a/*.pdf''
                                then Some [''/home/u/Projects/site-a/plan.pdf'']
                              else if pat = ''/home/u/Projects/site-a/n*''
                                then Some [''/home/u/Projects/site-a/notes.txt'']
                              else if pat = ''/home/u/Projects/site-a/[''
                                then None
                              else Some []),
      cmd_Start = (\<lambda>name args. None)\<rparr>"

text \<open>The same installation started without \<^verbatim>\<open>-token\<close>: the token keeps the
  default of its flag, the empty string.\<close>

definition tokenless_config :: config where
  "tokenless_config = \<lparr>basePath = ''/home/u/Projects'', port = ''1234'', token = []\<rparr>"

text \<open>The error of \<^verbatim>\<open>cmd.Start\<close> when \<^verbatim>\<open>xdg-open\<close> is not installed.\<close>

definition xdg_open_not_found :: string where
  "xdg_open_not_found =
     ''exec: '' @ [CHR 0x22] @ ''xdg-open'' @ [CHR 0x22] @ '': executable file not found in $PATH''"

text \<open>The same host without a program to open a folder with.\<close>

definition headless_host :: host where
  "headless_host = example_host\<lparr>cmd_Start := (\<lambda>name args. Some xdg_open_not_found)\<rparr>"

text \<open>
  A host where the base holds a directory named \<^verbatim>\<open>[x\<close> with one regular file
  \<^verbatim>\<open>a\<close> in it. \<^verbatim>\<open>filepath.Glob\<close> checks the whole pattern it is given before
  it looks at the file system, so for \<^verbatim>\<open>/home/u/Projects/[x/a\<close>, where the bracket
  is never closed, it returns \<^verbatim>\<open>ErrBadPattern\<close>. A pattern without metacharacters
  is answered by one \<^verbatim>\<open>Lstat\<close>: for \<^verbatim>\<open>/home/u/Projects\<close> the match is that
  path itself.
\<close>

definition bracket_host :: host where
  "bracket_host =
     \<lparr>GOOS = ''linux'',
      os_Stat = (\<lambda>p. if p = ''/home/u/Projects'' \<or> p = ''/home/u/Projects/[x''
                        then Some \<lparr>IsDir = True\<rparr>
                      else if p = ''/home/u/Projects/[x/a'' then Some \<lparr>IsDir = False\<rparr>
                      else None),
      filepath_Glob = (\<lambda>pat. if pat = ''/home/u/Projects/[x/a'' then None
                              else if pat = ''/home/u/Projects'' then Some [''/home/u/Projects'']
                              else Some []),
      cmd_Start = (\<lambda>name args. None)\<rparr>"

section \<open>Facts about the library model\<close>

declare Join.simps [simp del]

lemma http_Error_new_response:
  "0 < code \<Longrightarrow> http_Error new_response msg code = plain_error code msg"
  by (simp add: http_Error_def plain_error_def new_response_def Write_def WriteHeader_def
      Header_Set_def Header_Add_def Header_Del_def Let_def)

lemma WriteHeader_new_response:
  "0 < code \<Longrightarrow> WriteHeader code new_response = \<lparr>status = code, header = [], body = []\<rparr>"
  by (simp add: WriteHeader_def new_response_def)

lemma write_svg_new_response:
  "Write s (WriteHeader StatusOK (Header_Add ''Content-Type'' ''image/svg+xml'' new_response))
   = svg_image s"
  by (simp add: svg_image_def new_response_def Write_def WriteHeader_def
      Header_Add_def Let_def)

lemma Sprintf_svgTpl: "Sprintf svgTpl [c, g] = labelled_badge c g"
  by (simp add: svgTpl_def labelled_badge_def)

lemma Sprintf_cssTpl: "Sprintf cssTpl [c] = ''.'' @ c @ '' { display: initial !important; }''"
  by (simp add: cssTpl_def)

lemma IsAbs_not_empty: "IsAbs n \<Longrightarrow> n \<noteq> []"
  by (auto simp: IsAbs_def HasPrefix_def)

lemma IsAbs_Clean: "IsAbs p \<Longrightarrow> IsAbs (Clean p)"
  by (simp add: Clean_def IsAbs_def HasPrefix_def)

lemma IsAbs_Join: "IsAbs b \<Longrightarrow> IsAbs (Join [b, c])"
proof -
  assume b: "IsAbs b"
  then have "b \<noteq> []" by (rule IsAbs_not_empty)
  moreover from b have "IsAbs (b @ ''/'' @ c)"
    by (cases b) (simp_all add: IsAbs_def HasPrefix_def)
  ultimately show ?thesis
    using IsAbs_Clean [of "b @ ''/'' @ c"] by (simp add: Join.simps)
qed

lemma range_files_iff: "range_files files ext = (\<exists>f\<in>set files. \<not> HasSuffix f ext)"
  by (induction files) auto

lemma openPath_opener:
  "openPath h path = (cmd_Start h (opener h) [path], [Start (opener h) [path]])"
  by (simp add: openPath_def opener_def)

lemma escape_example:
  "\<not> IsAbs ''../../etc''" "Clean ''../../etc'' = ''../../etc''"
  "Join [''/home/u/Projects'', ''../../etc''] = ''/home/etc''"
  "\<not> lexically_inside ''/home/u/Projects'' ''/home/etc''"
  by (simp_all add: Clean_def IsAbs_def HasPrefix_def Join.simps lexically_inside_def)

section \<open>The branches of the handlers\<close>

text \<open>
  One lemma for each way out of a handler, in the order of the source: what the handler
  answers and what it has done to the host by then. The hypotheses of a lemma are the
  conditions of the branches passed on the way.
\<close>

lemma open_missing:
  "Get q ''name'' = [] \<Longrightarrow>
   open_handler cfg h q = (plain_error 400 ''Missing ?name= parameter'', [])"
  by (simp add: open_handler_def http_Error_new_response)

lemma open_bad_token:
  "Get q ''name'' \<noteq> [] \<Longrightarrow> \<not> token_passes cfg q \<Longrightarrow>
   open_handler cfg h q = (plain_error 400 ''Invalid Token'', [])"
  by (simp add: open_handler_def http_Error_new_response token_passes_def)

lemma open_absolute:
  "token_passes cfg q \<Longrightarrow> IsAbs (Get q ''name'') \<Longrightarrow>
   open_handler cfg h q =
     (plain_error 400 ''Invalid folder/file name'',
      [Stdout (''Base path: '' @ Clean (Get q ''name'') @ [CHR 0x0A]),
       Stdout (''Base path: '' @ Get q ''name'' @ [CHR 0x0A])])"
  by (auto simp add: open_handler_def http_Error_new_response token_passes_def Let_def
      dest: IsAbs_not_empty)

lemma open_not_found:
  "Get q ''name'' \<noteq> [] \<Longrightarrow> token_passes cfg q \<Longrightarrow> \<not> IsAbs (Get q ''name'') \<Longrightarrow>
   os_Stat h (resolved_path cfg q) = None \<or>
   (\<exists>i. os_Stat h (resolved_path cfg q) = Some i \<and> \<not> IsDir i) \<Longrightarrow>
   open_handler cfg h q = (plain_error 404 ''Not Found'', [Stat (resolved_path cfg q)])"
  by (auto simp add: open_handler_def http_Error_new_response token_passes_def Let_def
      resolved_path_def)

lemma open_launch:
  assumes "Get q ''name'' \<noteq> []" and "token_passes cfg q" and "\<not> IsAbs (Get q ''name'')"
    and "os_Stat h (resolved_path cfg q) = Some i" and "IsDir i"
  shows "open_handler cfg h q =
     (case cmd_Start h (opener h) [resolved_path cfg q] of
        None \<Rightarrow> \<lparr>status = 204, header = [], body = []\<rparr>
      | Some err \<Rightarrow> plain_error 500 (''Failed to open: '' @ err),
      [Stat (resolved_path cfg q), Start (opener h) [resolved_path cfg q]])"
  using assms
  by (simp add: open_handler_def http_Error_new_response token_passes_def Let_def
      resolved_path_def openPath_opener WriteHeader_new_response split: option.splits)

lemma open_relative:
  assumes "Get q ''name'' \<noteq> []" and "token_passes cfg q" and "\<not> IsAbs (Get q ''name'')"
  shows "\<exists>w es. open_handler cfg h q = (w, Stat (resolved_path cfg q) # es) \<and> status w \<noteq> 400"
proof (cases "os_Stat h (resolved_path cfg q)")
  case None
  then show ?thesis
    using assms by (simp add: open_not_found plain_error_def)
next
  case (Some i)
  show ?thesis
  proof (cases "IsDir i")
    case True
    show ?thesis
      using assms Some True
      by (cases "cmd_Start h (opener h) [resolved_path cfg q]")
         (simp_all add: open_launch plain_error_def)
  next
    case False
    then show ?thesis
      using assms Some by (simp add: open_not_found plain_error_def)
  qed
qed

lemma test_missing:
  "Get q ''name'' = [] \<Longrightarrow>
   test_handler cfg h q = (plain_error 400 ''Missing ?name= parameter'', [])"
  by (simp add: test_handler_def http_Error_new_response)

lemma test_bad_token:
  "Get q ''name'' \<noteq> [] \<Longrightarrow> \<not> token_passes cfg q \<Longrightarrow>
   test_handler cfg h q = (plain_error 400 ''Invalid Token'', [])"
  by (simp add: test_handler_def http_Error_new_response token_passes_def)

lemma test_absolute:
  "token_passes cfg q \<Longrightarrow> IsAbs (Get q ''name'') \<Longrightarrow>
   test_handler cfg h q =
     (plain_error 400 ''Invalid folder/file name'',
      [Stdout (''Base path: '' @ Clean (Get q ''name'') @ [CHR 0x0A]),
       Stdout (''Base path: '' @ Get q ''name'' @ [CHR 0x0A])])"
  by (auto simp add: test_handler_def http_Error_new_response token_passes_def Let_def
      dest: IsAbs_not_empty)

lemma test_absent:
  "Get q ''name'' \<noteq> [] \<Longrightarrow> token_passes cfg q \<Longrightarrow> \<not> IsAbs (Get q ''name'') \<Longrightarrow>
   os_Stat h (resolved_path cfg q) = None \<Longrightarrow>
   test_handler cfg h q =
     (svg_image (labelled_badge ''red'' (Get q ''glob'')), [Stat (resolved_path cfg q)])"
  by (simp add: test_handler_def token_passes_def Let_def resolved_path_def
      write_svg_new_response Sprintf_svgTpl)

lemma test_present_no_glob:
  "Get q ''name'' \<noteq> [] \<Longrightarrow> token_passes cfg q \<Longrightarrow> \<not> IsAbs (Get q ''name'') \<Longrightarrow>
   os_Stat h (resolved_path cfg q) = Some i \<Longrightarrow> Get q ''glob'' = [] \<Longrightarrow>
   test_handler cfg h q = (svg_image green_svg, [Stat (resolved_path cfg q)])"
  by (simp add: test_handler_def token_passes_def Let_def resolved_path_def
      write_svg_new_response)

lemma test_present_glob:
  "Get q ''name'' \<noteq> [] \<Longrightarrow> token_passes cfg q \<Longrightarrow> \<not> IsAbs (Get q ''name'') \<Longrightarrow>
   os_Stat h (resolved_path cfg q) = Some i \<Longrightarrow> Get q ''glob'' \<noteq> [] \<Longrightarrow>
   test_handler cfg h q =
     (case filepath_Glob h (Join [resolved_path cfg q, Base (Get q ''glob'')]) of
        None \<Rightarrow> plain_error 400 ''Bad Glob''
      | Some files \<Rightarrow>
          svg_image (labelled_badge
            (if \<exists>f\<in>set files. \<not> HasSuffix f ''.txt'' then ''green'' else ''orange'')
            (Get q ''glob'')),
      [Stat (resolved_path cfg q),
       Glob (Join [resolved_path cfg q, Base (Get q ''glob'')])])"
  by (simp add: test_handler_def token_passes_def Let_def resolved_path_def
      HasFileWithPrefixExceptExt_def range_files_iff http_Error_new_response
      write_svg_new_response Sprintf_svgTpl split: option.splits)

lemma test_relative:
  assumes "Get q ''name'' \<noteq> []" and "token_passes cfg q" and "\<not> IsAbs (Get q ''name'')"
  shows "\<exists>w es. test_handler cfg h q = (w, Stat (resolved_path cfg q) # es) \<and>
           w \<noteq> plain_error 400 ''Invalid folder/file name''"
proof (cases "os_Stat h (resolved_path cfg q)")
  case None
  then show ?thesis
    using assms by (simp add: test_absent plain_error_def svg_image_def)
next
  case (Some i)
  show ?thesis
  proof (cases "Get q ''glob'' = []")
    case True
    then show ?thesis
      using assms Some by (simp add: test_present_no_glob plain_error_def svg_image_def)
  next
    case False
    then show ?thesis
      using assms Some
      by (cases "filepath_Glob h (Join [resolved_path cfg q, Base (Get q ''glob'')])")
         (simp_all add: test_present_glob plain_error_def svg_image_def)
  qed
qed

lemma test_relative_status:
  assumes "Get q ''name'' \<noteq> []" and "token_passes cfg q" and "\<not> IsAbs (Get q ''name'')"
  shows "status (fst (test_handler cfg h q)) = 200 \<or>
         fst (test_handler cfg h q) = plain_error 400 ''Bad Glob''"
proof (cases "os_Stat h (resolved_path cfg q)")
  case None
  then show ?thesis
    using assms by (simp add: test_absent svg_image_def)
next
  case (Some i)
  show ?thesis
  proof (cases "Get q ''glob'' = []")
    case True
    then show ?thesis
      using assms Some by (simp add: test_present_no_glob svg_image_def)
  next
    case False
    then show ?thesis
      using assms Some
      by (cases "filepath_Glob h (Join [resolved_path cfg q, Base (Get q ''glob'')])")
         (simp_all add: test_present_glob svg_image_def)
  qed
qed

lemma test_ignores_IsDir:
  assumes "Get q ''name'' \<noteq> []" and "token_passes cfg q" and "\<not> IsAbs (Get q ''name'')"
    and "os_Stat h (resolved_path cfg q) = Some i"
  shows "test_handler cfg (h\<lparr>os_Stat := (os_Stat h)(resolved_path cfg q \<mapsto> \<lparr>IsDir = b\<rparr>)\<rparr>) q
         = test_handler cfg h q"
proof (cases "Get q ''glob'' = []")
  case True
  with assms show ?thesis by (simp add: test_present_no_glob)
next
  case False
  with assms show ?thesis by (simp add: test_present_glob)
qed

lemma style_missing:
  "Get q ''class'' = [] \<Longrightarrow>
   style_handler cfg q = (plain_error 400 ''Missing ?class= parameter'', [])"
  by (simp add: style_handler_def http_Error_new_response)

lemma style_bad_token:
  "Get q ''class'' \<noteq> [] \<Longrightarrow> \<not> token_passes cfg q \<Longrightarrow>
   style_handler cfg q = (plain_error 400 ''Invalid Token'', [])"
  by (simp add: style_handler_def http_Error_new_response token_passes_def)

lemma style_rule:
  "Get q ''class'' \<noteq> [] \<Longrightarrow> token_passes cfg q \<Longrightarrow>
   style_handler cfg q =
     (\<lparr>status = 200, header = [(''Content-Type'', ''text/css'')],
       body = ''.'' @ Get q ''class'' @ '' { display: initial !important; }''\<rparr>, [])"
  by (auto simp add: style_handler_def token_passes_def Sprintf_cssTpl
      new_response_def Write_def WriteHeader_def Header_Add_def Let_def)

section \<open>The token check\<close>

lemma open_token_free:
  "token cfg = [] \<Longrightarrow>
   open_handler cfg h q = open_handler (cfg\<lparr>token := t\<rparr>) h (q(''token'' \<mapsto> [t]))"
  by (simp add: open_handler_def Get_def Let_def cong: if_cong)

lemma test_token_free:
  "token cfg = [] \<Longrightarrow>
   test_handler cfg h q = test_handler (cfg\<lparr>token := t\<rparr>) h (q(''token'' \<mapsto> [t]))"
  by (simp add: test_handler_def Get_def Let_def cong: if_cong)

lemma style_token_free:
  "token cfg = [] \<Longrightarrow>
   style_handler cfg q = style_handler (cfg\<lparr>token := t\<rparr>) (q(''token'' \<mapsto> [t]))"
  by (simp add: style_handler_def Get_def Let_def cong: if_cong)

lemma open_never_invalid_token:
  assumes "token_passes cfg q"
  shows "fst (open_handler cfg h q) \<noteq> plain_error 400 ''Invalid Token''"
proof (cases "Get q ''name'' = []")
  case True
  then show ?thesis by (simp add: open_missing plain_error_def)
next
  case ne: False
  show ?thesis
  proof (cases "IsAbs (Get q ''name'')")
    case True
    with assms show ?thesis by (simp add: open_absolute plain_error_def)
  next
    case False
    from open_relative [OF ne assms False, of h] show ?thesis
      by (auto simp: plain_error_def)
  qed
qed

lemma test_never_invalid_token:
  assumes "token_passes cfg q"
  shows "fst (test_handler cfg h q) \<noteq> plain_error 400 ''Invalid Token''"
proof (cases "Get q ''name'' = []")
  case True
  then show ?thesis by (simp add: test_missing plain_error_def)
next
  case ne: False
  show ?thesis
  proof (cases "IsAbs (Get q ''name'')")
    case True
    with assms show ?thesis by (simp add: test_absolute plain_error_def)
  next
    case False
    from test_relative_status [OF ne assms False, of h] show ?thesis
      by (auto simp: plain_error_def)
  qed
qed

lemma style_never_invalid_token:
  assumes "token_passes cfg q"
  shows "fst (style_handler cfg q) \<noteq> plain_error 400 ''Invalid Token''"
  using assms by (cases "Get q ''class'' = []")
    (simp_all add: style_missing style_rule plain_error_def)

section \<open>The claims of the specification\<close>

text \<open>The definitions a request to the example installation is evaluated with.\<close>

lemmas eval_request =
  Get_def token_passes_def IsAbs_def HasPrefix_def HasSuffix_def resolved_path_def Join.simps
  Clean_def Base_def opener_def example_config_def example_host_def headless_host_def
  tokenless_config_def bracket_host_def hasMeta_def

subsection \<open>The path guard looks at the name as supplied, and at nothing else\<close>

text \<open>
  Claim C1. For a request that reaches the path guard (a name is given and the token
  check passes), \<^verbatim>\<open>/open\<close> and \<^verbatim>\<open>/test\<close> answer
  400 \<^verbatim>\<open>Invalid folder/file name\<close> if and only if the name, as the caller supplied
  it, is an absolute path. Nothing checks the joined path against the base: with the
  base \<^verbatim>\<open>/home/u/Projects\<close> the name \<^verbatim>\<open>../../etc\<close> is not absolute, its
  cleaned form still begins with the two \<^verbatim>\<open>..\<close> elements, the guard lets it
  through, the joined path is \<^verbatim>\<open>/home/etc\<close>, which is lexically outside the
  base, and both handlers go on to stat that path.
\<close>

theorem path_guard_rejects_exactly_absolute_names:
  assumes "Get q ''name'' \<noteq> []" and "token_passes cfg q"
  shows "((fst (open_handler cfg h q) = plain_error 400 ''Invalid folder/file name'')
            = IsAbs (Get q ''name'')) \<and>
         ((fst (test_handler cfg h q) = plain_error 400 ''Invalid folder/file name'')
            = IsAbs (Get q ''name'')) \<and>
         (basePath cfg = ''/home/u/Projects'' \<and> Get q ''name'' = ''../../etc'' \<longrightarrow>
            \<not> IsAbs (Get q ''name'') \<and>
            Clean (Get q ''name'') = ''../../etc'' \<and>
            resolved_path cfg q = ''/home/etc'' \<and>
            \<not> lexically_inside (basePath cfg) (resolved_path cfg q) \<and>
            Stat ''/home/etc'' \<in> set (snd (open_handler cfg h q)) \<and>
            Stat ''/home/etc'' \<in> set (snd (test_handler cfg h q)))"
proof (intro conjI impI)
  show "(fst (open_handler cfg h q) = plain_error 400 ''Invalid folder/file name'')
          = IsAbs (Get q ''name'')"
  proof (cases "IsAbs (Get q ''name'')")
    case True
    then show ?thesis using assms by (simp add: open_absolute)
  next
    case False
    from open_relative [OF assms False, of h] obtain w es
      where "open_handler cfg h q = (w, Stat (resolved_path cfg q) # es)" and "status w \<noteq> 400"
      by blast
    then show ?thesis using False by (auto simp: plain_error_def)
  qed
  show "(fst (test_handler cfg h q) = plain_error 400 ''Invalid folder/file name'')
          = IsAbs (Get q ''name'')"
  proof (cases "IsAbs (Get q ''name'')")
    case True
    then show ?thesis using assms by (simp add: test_absolute)
  next
    case False
    from test_relative [OF assms False, of h] show ?thesis using False by auto
  qed
next
  assume ex: "basePath cfg = ''/home/u/Projects'' \<and> Get q ''name'' = ''../../etc''"
  then show rel: "\<not> IsAbs (Get q ''name'')" and "Clean (Get q ''name'') = ''../../etc''"
    by (simp_all add: escape_example)
  from ex show res: "resolved_path cfg q = ''/home/etc''"
    by (simp add: resolved_path_def escape_example)
  from ex res show "\<not> lexically_inside (basePath cfg) (resolved_path cfg q)"
    by (simp add: escape_example)
  from open_relative [OF assms rel, of h] res
  show "Stat ''/home/etc'' \<in> set (snd (open_handler cfg h q))" by auto
  from test_relative [OF assms rel, of h] res
  show "Stat ''/home/etc'' \<in> set (snd (test_handler cfg h q))" by auto
qed

text \<open>On the example host, where \<^verbatim>\<open>/home/etc\<close> is a directory.\<close>

theorem path_guard_witness:
  "Get [''name'' \<mapsto> [''../../etc''], ''token'' \<mapsto> [''secret'']] ''name'' \<noteq> [] \<and>
   token_passes example_config [''name'' \<mapsto> [''../../etc''], ''token'' \<mapsto> [''secret'']] \<and>
   fst (open_handler example_config example_host
          [''name'' \<mapsto> [''../../etc''], ''token'' \<mapsto> [''secret'']])
     \<noteq> plain_error 400 ''Invalid folder/file name'' \<and>
   resolved_path example_config [''name'' \<mapsto> [''../../etc''], ''token'' \<mapsto> [''secret'']]
     = ''/home/etc'' \<and>
   \<not> lexically_inside (basePath example_config) ''/home/etc'' \<and>
   Stat ''/home/etc'' \<in> set (snd (open_handler example_config example_host
          [''name'' \<mapsto> [''../../etc''], ''token'' \<mapsto> [''secret'']])) \<and>
   Stat ''/home/etc'' \<in> set (snd (test_handler example_config example_host
          [''name'' \<mapsto> [''../../etc''], ''token'' \<mapsto> [''secret'']]))"
proof -
  let ?q = "[''name'' \<mapsto> [''../../etc''], ''token'' \<mapsto> [''secret'']]"
  have n: "Get ?q ''name'' \<noteq> []" by (simp add: Get_def)
  have t: "token_passes example_config ?q" by (simp add: eval_request)
  have b: "basePath example_config = ''/home/u/Projects'' \<and> Get ?q ''name'' = ''../../etc''"
    by (simp add: eval_request)
  have a: "\<not> IsAbs (Get ?q ''name'')" by (simp add: eval_request)
  note th = path_guard_rejects_exactly_absolute_names [OF n t, of example_host]
  from th a have g: "fst (open_handler example_config example_host ?q)
      \<noteq> plain_error 400 ''Invalid folder/file name''"
    by blast
  from th b have r: "resolved_path example_config ?q = ''/home/etc''"
    and l: "\<not> lexically_inside (basePath example_config) (resolved_path example_config ?q)"
    and so: "Stat ''/home/etc'' \<in> set (snd (open_handler example_config example_host ?q))"
    and st: "Stat ''/home/etc'' \<in> set (snd (test_handler example_config example_host ?q))"
    by blast+
  from l r have "\<not> lexically_inside (basePath example_config) ''/home/etc''" by simp
  with n t g r so st show ?thesis by blast
qed

subsection \<open>A wrong token\<close>

text \<open>
  Claim C2, as the program has it. When a non-empty token is configured and the token
  of the request differs from it, each of \<^verbatim>\<open>/open\<close>, \<^verbatim>\<open>/test\<close> and
  \<^verbatim>\<open>/style\<close> answers with status 400 and has no effect on the host: no stat, no
  glob, no process, no output. The answer is the authorization error
  \<^verbatim>\<open>Invalid Token\<close> exactly when the required parameter (\<^verbatim>\<open>name\<close> for
  \<^verbatim>\<open>/open\<close> and \<^verbatim>\<open>/test\<close>, \<^verbatim>\<open>class\<close> for \<^verbatim>\<open>/style\<close>) is not
  empty: the check for the missing parameter comes first, and then the 400 is the
  missing-parameter error.
\<close>

theorem mismatched_token_is_400_without_effects:
  assumes "token cfg \<noteq> []" and "Get q ''token'' \<noteq> token cfg"
  shows "status (fst (open_handler cfg h q)) = 400 \<and> snd (open_handler cfg h q) = [] \<and>
         status (fst (test_handler cfg h q)) = 400 \<and> snd (test_handler cfg h q) = [] \<and>
         status (fst (style_handler cfg q)) = 400 \<and> snd (style_handler cfg q) = [] \<and>
         ((fst (open_handler cfg h q) = plain_error 400 ''Invalid Token'')
            = (Get q ''name'' \<noteq> [])) \<and>
         ((fst (test_handler cfg h q) = plain_error 400 ''Invalid Token'')
            = (Get q ''name'' \<noteq> [])) \<and>
         ((fst (style_handler cfg q) = plain_error 400 ''Invalid Token'')
            = (Get q ''class'' \<noteq> [])) \<and>
         ((fst (open_handler cfg h q) = plain_error 400 ''Missing ?name= parameter'')
            = (Get q ''name'' = [])) \<and>
         ((fst (test_handler cfg h q) = plain_error 400 ''Missing ?name= parameter'')
            = (Get q ''name'' = [])) \<and>
         ((fst (style_handler cfg q) = plain_error 400 ''Missing ?class= parameter'')
            = (Get q ''class'' = []))"
proof -
  from assms have nt: "\<not> token_passes cfg q"
    by (auto simp: token_passes_def)
  have o: "status (fst (open_handler cfg h q)) = 400 \<and> snd (open_handler cfg h q) = [] \<and>
      ((fst (open_handler cfg h q) = plain_error 400 ''Invalid Token'') = (Get q ''name'' \<noteq> [])) \<and>
      ((fst (open_handler cfg h q) = plain_error 400 ''Missing ?name= parameter'')
         = (Get q ''name'' = []))"
    using nt by (cases "Get q ''name'' = []")
      (simp_all add: open_missing open_bad_token plain_error_def)
  have t: "status (fst (test_handler cfg h q)) = 400 \<and> snd (test_handler cfg h q) = [] \<and>
      ((fst (test_handler cfg h q) = plain_error 400 ''Invalid Token'') = (Get q ''name'' \<noteq> [])) \<and>
      ((fst (test_handler cfg h q) = plain_error 400 ''Missing ?name= parameter'')
         = (Get q ''name'' = []))"
    using nt by (cases "Get q ''name'' = []")
      (simp_all add: test_missing test_bad_token plain_error_def)
  have s: "status (fst (style_handler cfg q)) = 400 \<and> snd (style_handler cfg q) = [] \<and>
      ((fst (style_handler cfg q) = plain_error 400 ''Invalid Token'') = (Get q ''class'' \<noteq> [])) \<and>
      ((fst (style_handler cfg q) = plain_error 400 ''Missing ?class= parameter'')
         = (Get q ''class'' = []))"
    using nt by (cases "Get q ''class'' = []")
      (simp_all add: style_missing style_bad_token plain_error_def)
  from o t s show ?thesis by blast
qed

theorem mismatched_token_witness:
  "token example_config \<noteq> [] \<and>
   Get [''name'' \<mapsto> [''site-a''], ''class'' \<mapsto> [''foo''], ''token'' \<mapsto> [''wrong'']] ''token''
     \<noteq> token example_config \<and>
   open_handler example_config example_host
     [''name'' \<mapsto> [''site-a''], ''class'' \<mapsto> [''foo''], ''token'' \<mapsto> [''wrong'']]
     = (plain_error 400 ''Invalid Token'', []) \<and>
   test_handler example_config example_host
     [''name'' \<mapsto> [''site-a''], ''class'' \<mapsto> [''foo''], ''token'' \<mapsto> [''wrong'']]
     = (plain_error 400 ''Invalid Token'', []) \<and>
   style_handler example_config
     [''name'' \<mapsto> [''site-a''], ''class'' \<mapsto> [''foo''], ''token'' \<mapsto> [''wrong'']]
     = (plain_error 400 ''Invalid Token'', [])"
proof -
  let ?q = "[''name'' \<mapsto> [''site-a''], ''class'' \<mapsto> [''foo''], ''token'' \<mapsto> [''wrong'']]"
  have c: "token example_config \<noteq> []" by (simp add: example_config_def)
  have g: "Get ?q ''token'' \<noteq> token example_config" by (simp add: example_config_def Get_def)
  have n: "Get ?q ''name'' \<noteq> []" and k: "Get ?q ''class'' \<noteq> []" by (simp_all add: Get_def)
  note th = mismatched_token_is_400_without_effects [OF c g, of example_host]
  from th n k have "fst (open_handler example_config example_host ?q) = plain_error 400 ''Invalid Token''"
    and "snd (open_handler example_config example_host ?q) = []"
    and "fst (test_handler example_config example_host ?q) = plain_error 400 ''Invalid Token''"
    and "snd (test_handler example_config example_host ?q) = []"
    and "fst (style_handler example_config ?q) = plain_error 400 ''Invalid Token''"
    and "snd (style_handler example_config ?q) = []"
    by blast+
  with c g show ?thesis by (simp add: prod_eq_iff)
qed

text \<open>
  The claim as the specification words it, an authorization error for every request
  with a wrong token, fails at a request with a wrong token and no name: the answer to
  \<^verbatim>\<open>/open?token=wrong\<close> is the missing-parameter error.
\<close>

theorem mismatched_token_missing_name_counterexample:
  "token example_config \<noteq> [] \<and>
   Get [''token'' \<mapsto> [''wrong'']] ''token'' \<noteq> token example_config \<and>
   open_handler example_config example_host [''token'' \<mapsto> [''wrong'']]
     = (plain_error 400 ''Missing ?name= parameter'', []) \<and>
   fst (open_handler example_config example_host [''token'' \<mapsto> [''wrong'']])
     \<noteq> plain_error 400 ''Invalid Token''"
  by (simp add: open_missing Get_def example_config_def plain_error_def)

subsection \<open>The order of the checks of /open\<close>

text \<open>
  Claim C3. \<^verbatim>\<open>/open\<close> checks, in this order: that a name is given, the token,
  that the name is not absolute, that the resolved path exists and is a directory. The
  first check that fails decides the answer, whatever the later checks would have
  found, and none of the later checks runs: before the last check the host is never
  asked about a path, and a process is started only when all four have passed.
\<close>

theorem open_checks_in_order:
  "(Get q ''name'' = [] \<longrightarrow>
      open_handler cfg h q = (plain_error 400 ''Missing ?name= parameter'', [])) \<and>
   (Get q ''name'' \<noteq> [] \<and> \<not> token_passes cfg q \<longrightarrow>
      open_handler cfg h q = (plain_error 400 ''Invalid Token'', [])) \<and>
   (Get q ''name'' \<noteq> [] \<and> token_passes cfg q \<and> IsAbs (Get q ''name'') \<longrightarrow>
      open_handler cfg h q =
        (plain_error 400 ''Invalid folder/file name'',
         [Stdout (''Base path: '' @ Clean (Get q ''name'') @ [CHR 0x0A]),
          Stdout (''Base path: '' @ Get q ''name'' @ [CHR 0x0A])])) \<and>
   (Get q ''name'' \<noteq> [] \<and> token_passes cfg q \<and> \<not> IsAbs (Get q ''name'') \<and>
    (os_Stat h (resolved_path cfg q) = None \<or>
     (\<exists>i. os_Stat h (resolved_path cfg q) = Some i \<and> \<not> IsDir i)) \<longrightarrow>
      open_handler cfg h q = (plain_error 404 ''Not Found'', [Stat (resolved_path cfg q)])) \<and>
   (Get q ''name'' \<noteq> [] \<and> token_passes cfg q \<and> \<not> IsAbs (Get q ''name'') \<and>
    (\<exists>i. os_Stat h (resolved_path cfg q) = Some i \<and> IsDir i) \<longrightarrow>
      snd (open_handler cfg h q) =
        [Stat (resolved_path cfg q), Start (opener h) [resolved_path cfg q]] \<and>
      status (fst (open_handler cfg h q)) \<in> {204, 500})"
proof (intro conjI impI)
  assume "Get q ''name'' = []"
  then show "open_handler cfg h q = (plain_error 400 ''Missing ?name= parameter'', [])"
    by (rule open_missing)
next
  assume "Get q ''name'' \<noteq> [] \<and> \<not> token_passes cfg q"
  then show "open_handler cfg h q = (plain_error 400 ''Invalid Token'', [])"
    by (simp add: open_bad_token)
next
  assume "Get q ''name'' \<noteq> [] \<and> token_passes cfg q \<and> IsAbs (Get q ''name'')"
  then show "open_handler cfg h q =
        (plain_error 400 ''Invalid folder/file name'',
         [Stdout (''Base path: '' @ Clean (Get q ''name'') @ [CHR 0x0A]),
          Stdout (''Base path: '' @ Get q ''name'' @ [CHR 0x0A])])"
    by (simp add: open_absolute)
next
  assume "Get q ''name'' \<noteq> [] \<and> token_passes cfg q \<and> \<not> IsAbs (Get q ''name'') \<and>
    (os_Stat h (resolved_path cfg q) = None \<or>
     (\<exists>i. os_Stat h (resolved_path cfg q) = Some i \<and> \<not> IsDir i))"
  then show "open_handler cfg h q = (plain_error 404 ''Not Found'', [Stat (resolved_path cfg q)])"
    using open_not_found [of q cfg h] by blast
next
  assume a: "Get q ''name'' \<noteq> [] \<and> token_passes cfg q \<and> \<not> IsAbs (Get q ''name'') \<and>
    (\<exists>i. os_Stat h (resolved_path cfg q) = Some i \<and> IsDir i)"
  then obtain i where i: "os_Stat h (resolved_path cfg q) = Some i" "IsDir i" by blast
  from a i show "snd (open_handler cfg h q) =
        [Stat (resolved_path cfg q), Start (opener h) [resolved_path cfg q]]"
    by (simp add: open_launch)
  from a i show "status (fst (open_handler cfg h q)) \<in> {204, 500}"
    by (cases "cmd_Start h (opener h) [resolved_path cfg q]")
       (simp_all add: open_launch plain_error_def)
qed

text \<open>
  One request for each of the five ways out. The first has a wrong token and no name,
  the second a wrong token and an absolute name: the earlier check answers.
\<close>

theorem open_checks_in_order_witness:
  "open_handler example_config example_host [''token'' \<mapsto> [''wrong'']]
     = (plain_error 400 ''Missing ?name= parameter'', []) \<and>
   open_handler example_config example_host [''name'' \<mapsto> [''/etc''], ''token'' \<mapsto> [''wrong'']]
     = (plain_error 400 ''Invalid Token'', []) \<and>
   open_handler example_config example_host [''name'' \<mapsto> [''/etc''], ''token'' \<mapsto> [''secret'']]
     = (plain_error 400 ''Invalid folder/file name'',
        [Stdout (''Base path: /etc'' @ [CHR 0x0A]), Stdout (''Base path: /etc'' @ [CHR 0x0A])]) \<and>
   open_handler example_config example_host
     [''name'' \<mapsto> [''notes.txt''], ''token'' \<mapsto> [''secret'']]
     = (plain_error 404 ''Not Found'', [Stat ''/home/u/Projects/notes.txt'']) \<and>
   snd (open_handler example_config example_host
     [''name'' \<mapsto> [''site-a''], ''token'' \<mapsto> [''secret'']])
     = [Stat ''/home/u/Projects/site-a'', Start ''xdg-open'' [''/home/u/Projects/site-a'']]"
proof -
  have 1: "open_handler example_config example_host [''token'' \<mapsto> [''wrong'']]
     = (plain_error 400 ''Missing ?name= parameter'', [])"
    using open_checks_in_order [of "[''token'' \<mapsto> [''wrong'']]" example_config example_host]
    by (simp add: eval_request)
  have 2: "open_handler example_config example_host
       [''name'' \<mapsto> [''/etc''], ''token'' \<mapsto> [''wrong'']]
     = (plain_error 400 ''Invalid Token'', [])"
    using open_checks_in_order
      [of "[''name'' \<mapsto> [''/etc''], ''token'' \<mapsto> [''wrong'']]" example_config example_host]
    by (simp add: eval_request)
  have 3: "open_handler example_config example_host
       [''name'' \<mapsto> [''/etc''], ''token'' \<mapsto> [''secret'']]
     = (plain_error 400 ''Invalid folder/file name'',
        [Stdout (''Base path: /etc'' @ [CHR 0x0A]), Stdout (''Base path: /etc'' @ [CHR 0x0A])])"
    using open_checks_in_order
      [of "[''name'' \<mapsto> [''/etc''], ''token'' \<mapsto> [''secret'']]" example_config example_host]
    by (simp add: eval_request)
  have 4: "open_handler example_config example_host
       [''name'' \<mapsto> [''notes.txt''], ''token'' \<mapsto> [''secret'']]
     = (plain_error 404 ''Not Found'', [Stat ''/home/u/Projects/notes.txt''])"
    using open_checks_in_order
      [of "[''name'' \<mapsto> [''notes.txt''], ''token'' \<mapsto> [''secret'']]" example_config example_host]
    by (simp add: eval_request)
  have 5: "snd (open_handler example_config example_host
       [''name'' \<mapsto> [''site-a''], ''token'' \<mapsto> [''secret'']])
     = [Stat ''/home/u/Projects/site-a'', Start ''xdg-open'' [''/home/u/Projects/site-a'']]"
    using open_checks_in_order
      [of "[''name'' \<mapsto> [''site-a''], ''token'' \<mapsto> [''secret'']]" example_config example_host]
    by (simp add: eval_request)
  from 1 2 3 4 5 show ?thesis by blast
qed

subsection \<open>Opening a directory\<close>

text \<open>
  Claim C4, as the program has it. For every name that is not empty and not absolute
  and that, cleaned and joined onto the base, resolves to an existing directory, with a
  token that passes, \<^verbatim>\<open>/open\<close> stats the resolved path and then makes exactly one
  attempt to start a process: the opener of the platform (\<^verbatim>\<open>explorer\<close> on
  Windows, \<^verbatim>\<open>open\<close> on macOS, \<^verbatim>\<open>xdg-open\<close> elsewhere) with the resolved
  path as its only argument. It answers 204 with no body when the process has started,
  and 500 with the cause when it has not. The resolved path is absolute whenever the
  base is.
\<close>

theorem open_launches_opener_on_resolved_directory:
  assumes "Get q ''name'' \<noteq> []" and "\<not> IsAbs (Get q ''name'')" and "token_passes cfg q"
    and "os_Stat h (resolved_path cfg q) = Some i" and "IsDir i"
  shows "snd (open_handler cfg h q) =
           [Stat (resolved_path cfg q), Start (opener h) [resolved_path cfg q]] \<and>
         (cmd_Start h (opener h) [resolved_path cfg q] = None \<longrightarrow>
            fst (open_handler cfg h q) = \<lparr>status = 204, header = [], body = []\<rparr>) \<and>
         (\<forall>err. cmd_Start h (opener h) [resolved_path cfg q] = Some err \<longrightarrow>
            fst (open_handler cfg h q) = plain_error 500 (''Failed to open: '' @ err)) \<and>
         (IsAbs (basePath cfg) \<longrightarrow> IsAbs (resolved_path cfg q))"
  using assms by (simp add: open_launch resolved_path_def IsAbs_Join)

theorem open_launch_witness:
  "Get [''name'' \<mapsto> [''site-a''], ''token'' \<mapsto> [''secret'']] ''name'' \<noteq> [] \<and>
   \<not> IsAbs ''site-a'' \<and>
   token_passes example_config [''name'' \<mapsto> [''site-a''], ''token'' \<mapsto> [''secret'']] \<and>
   os_Stat example_host ''/home/u/Projects/site-a'' = Some \<lparr>IsDir = True\<rparr> \<and>
   open_handler example_config example_host
       [''name'' \<mapsto> [''site-a''], ''token'' \<mapsto> [''secret'']]
     = (\<lparr>status = 204, header = [], body = []\<rparr>,
        [Stat ''/home/u/Projects/site-a'', Start ''xdg-open'' [''/home/u/Projects/site-a'']]) \<and>
   open_handler example_config headless_host
       [''name'' \<mapsto> [''site-a''], ''token'' \<mapsto> [''secret'']]
     = (plain_error 500
          (''Failed to open: '' @ xdg_open_not_found),
        [Stat ''/home/u/Projects/site-a'', Start ''xdg-open'' [''/home/u/Projects/site-a'']]) \<and>
   IsAbs ''/home/u/Projects/site-a''"
proof -
  let ?q = "[''name'' \<mapsto> [''site-a''], ''token'' \<mapsto> [''secret'']]"
  have n: "Get ?q ''name'' \<noteq> []" and a: "\<not> IsAbs (Get ?q ''name'')"
    and t: "token_passes example_config ?q"
    and r: "resolved_path example_config ?q = ''/home/u/Projects/site-a''"
    by (simp_all add: eval_request)
  have s: "os_Stat example_host (resolved_path example_config ?q) = Some \<lparr>IsDir = True\<rparr>"
    and s': "os_Stat headless_host (resolved_path example_config ?q) = Some \<lparr>IsDir = True\<rparr>"
    by (simp_all add: r) (simp_all add: example_host_def headless_host_def)
  have d: "IsDir \<lparr>IsDir = True\<rparr>" by simp
  have o: "opener example_host = ''xdg-open''" "opener headless_host = ''xdg-open''"
    and c: "cmd_Start example_host ''xdg-open'' [''/home/u/Projects/site-a''] = None"
    and c': "cmd_Start headless_host ''xdg-open'' [''/home/u/Projects/site-a'']
       = Some xdg_open_not_found"
    and b: "IsAbs (basePath example_config)"
    by (simp_all add: eval_request)
  note th = open_launches_opener_on_resolved_directory [OF n a t s d]
  note th' = open_launches_opener_on_resolved_directory [OF n a t s' d]
  from th c o r have 1: "open_handler example_config example_host ?q
     = (\<lparr>status = 204, header = [], body = []\<rparr>,
        [Stat ''/home/u/Projects/site-a'', Start ''xdg-open'' [''/home/u/Projects/site-a'']])"
    by (simp add: prod_eq_iff)
  from th' c' o r have 2: "open_handler example_config headless_host ?q
     = (plain_error 500
          (''Failed to open: '' @ xdg_open_not_found),
        [Stat ''/home/u/Projects/site-a'', Start ''xdg-open'' [''/home/u/Projects/site-a'']])"
    by (simp add: prod_eq_iff)
  from th b r have 3: "IsAbs ''/home/u/Projects/site-a''" by simp
  from n a t s r 1 2 3 show ?thesis by (simp add: Get_def)
qed

text \<open>
  The claim as the specification words it asks for 204 and one launched process
  whenever the name resolves to an existing directory and the token is right. It fails
  at the absolute name \<^verbatim>\<open>/site-a\<close>, which cleans and joins to the existing
  directory \<^verbatim>\<open>/home/u/Projects/site-a\<close> and is answered 400 by the path guard;
  and it fails at the name \<^verbatim>\<open>site-a\<close> on a host where the opener does not start,
  which is answered 500.
\<close>

theorem open_absolute_name_or_failed_launch_counterexample:
  "token_passes example_config [''name'' \<mapsto> [''/site-a''], ''token'' \<mapsto> [''secret'']] \<and>
   resolved_path example_config [''name'' \<mapsto> [''/site-a''], ''token'' \<mapsto> [''secret'']]
     = ''/home/u/Projects/site-a'' \<and>
   os_Stat example_host ''/home/u/Projects/site-a'' = Some \<lparr>IsDir = True\<rparr> \<and>
   open_handler example_config example_host
       [''name'' \<mapsto> [''/site-a''], ''token'' \<mapsto> [''secret'']]
     = (plain_error 400 ''Invalid folder/file name'',
        [Stdout (''Base path: /site-a'' @ [CHR 0x0A]),
         Stdout (''Base path: /site-a'' @ [CHR 0x0A])]) \<and>
   token_passes example_config [''name'' \<mapsto> [''site-a''], ''token'' \<mapsto> [''secret'']] \<and>
   resolved_path example_config [''name'' \<mapsto> [''site-a''], ''token'' \<mapsto> [''secret'']]
     = ''/home/u/Projects/site-a'' \<and>
   os_Stat headless_host ''/home/u/Projects/site-a'' = Some \<lparr>IsDir = True\<rparr> \<and>
   open_handler example_config headless_host
       [''name'' \<mapsto> [''site-a''], ''token'' \<mapsto> [''secret'']]
     = (plain_error 500
          (''Failed to open: '' @ xdg_open_not_found),
        [Stat ''/home/u/Projects/site-a'', Start ''xdg-open'' [''/home/u/Projects/site-a'']])"
proof -
  let ?qa = "[''name'' \<mapsto> [''/site-a''], ''token'' \<mapsto> [''secret'']]"
  let ?q = "[''name'' \<mapsto> [''site-a''], ''token'' \<mapsto> [''secret'']]"
  have ta: "token_passes example_config ?qa" and ia: "IsAbs (Get ?qa ''name'')"
    and ra: "resolved_path example_config ?qa = ''/home/u/Projects/site-a''"
    and sa: "os_Stat example_host ''/home/u/Projects/site-a'' = Some \<lparr>IsDir = True\<rparr>"
    by (simp_all add: eval_request)
  have 1: "open_handler example_config example_host ?qa
     = (plain_error 400 ''Invalid folder/file name'',
        [Stdout (''Base path: /site-a'' @ [CHR 0x0A]),
         Stdout (''Base path: /site-a'' @ [CHR 0x0A])])"
    using open_absolute [OF ta ia, of example_host] by (simp add: eval_request)
  have n: "Get ?q ''name'' \<noteq> []" and a: "\<not> IsAbs (Get ?q ''name'')"
    and t: "token_passes example_config ?q"
    and r: "resolved_path example_config ?q = ''/home/u/Projects/site-a''"
    and s: "os_Stat headless_host ''/home/u/Projects/site-a'' = Some \<lparr>IsDir = True\<rparr>"
    by (simp_all add: eval_request)
  have 2: "open_handler example_config headless_host ?q
     = (plain_error 500
          (''Failed to open: '' @ xdg_open_not_found),
        [Stat ''/home/u/Projects/site-a'', Start ''xdg-open'' [''/home/u/Projects/site-a'']])"
    using open_launch [of ?q example_config headless_host "\<lparr>IsDir = True\<rparr>"] n a t r s
    by (simp add: opener_def headless_host_def example_host_def)
  from ta ra sa 1 t r s 2 show ?thesis by blast
qed

subsection \<open>An absolute name\<close>

text \<open>
  Claim C5. For every name that is an absolute path, \<^verbatim>\<open>/open\<close> and \<^verbatim>\<open>/test\<close>
  answer with status 400, whatever the configured token, the token of the request and
  the file system are.
\<close>

theorem absolute_name_is_400:
  assumes "IsAbs (Get q ''name'')"
  shows "status (fst (open_handler cfg h q)) = 400 \<and> status (fst (test_handler cfg h q)) = 400"
proof (cases "token_passes cfg q")
  case True
  with assms show ?thesis
    by (simp add: open_absolute test_absolute plain_error_def)
next
  case False
  moreover from assms have "Get q ''name'' \<noteq> []" by (rule IsAbs_not_empty)
  ultimately show ?thesis
    by (simp add: open_bad_token test_bad_token plain_error_def)
qed

theorem absolute_name_witness:
  "IsAbs (Get [''name'' \<mapsto> [''/etc/passwd'']] ''name'') \<and>
   status (fst (open_handler example_config example_host [''name'' \<mapsto> [''/etc/passwd'']])) = 400 \<and>
   status (fst (test_handler example_config example_host [''name'' \<mapsto> [''/etc/passwd'']])) = 400 \<and>
   IsAbs (Get [''name'' \<mapsto> [''/etc/passwd''], ''token'' \<mapsto> [''secret'']] ''name'') \<and>
   status (fst (open_handler example_config example_host
     [''name'' \<mapsto> [''/etc/passwd''], ''token'' \<mapsto> [''secret'']])) = 400 \<and>
   status (fst (test_handler example_config example_host
     [''name'' \<mapsto> [''/etc/passwd''], ''token'' \<mapsto> [''secret'']])) = 400"
proof -
  have a: "IsAbs (Get [''name'' \<mapsto> [''/etc/passwd'']] ''name'')"
    and b: "IsAbs (Get [''name'' \<mapsto> [''/etc/passwd''], ''token'' \<mapsto> [''secret'']] ''name'')"
    by (simp_all add: eval_request)
  from absolute_name_is_400 [OF a, of example_config example_host]
    absolute_name_is_400 [OF b, of example_config example_host] a b
  show ?thesis by blast
qed

subsection \<open>A path that does not exist\<close>

text \<open>
  Claim C6. For every name that passes the token check and the path guard and whose
  resolved path does not exist (the stat fails), \<^verbatim>\<open>/open\<close> answers
  404 \<^verbatim>\<open>Not Found\<close>, and \<^verbatim>\<open>/test\<close> answers 200 with a vector image: the
  badge filled red, with the \<^verbatim>\<open>glob\<close> of the request as its label.
\<close>

theorem missing_path_is_404_and_red_badge:
  assumes "Get q ''name'' \<noteq> []" and "token_passes cfg q" and "\<not> IsAbs (Get q ''name'')"
    and "os_Stat h (resolved_path cfg q) = None"
  shows "open_handler cfg h q = (plain_error 404 ''Not Found'', [Stat (resolved_path cfg q)]) \<and>
         test_handler cfg h q =
           (svg_image (labelled_badge ''red'' (Get q ''glob'')), [Stat (resolved_path cfg q)])"
  using assms by (simp add: open_not_found test_absent)

theorem missing_path_witness:
  "os_Stat example_host ''/home/u/Projects/gone'' = None \<and>
   open_handler example_config example_host
       [''name'' \<mapsto> [''gone''], ''glob'' \<mapsto> [''*.pdf''], ''token'' \<mapsto> [''secret'']]
     = (plain_error 404 ''Not Found'', [Stat ''/home/u/Projects/gone'']) \<and>
   test_handler example_config example_host
       [''name'' \<mapsto> [''gone''], ''glob'' \<mapsto> [''*.pdf''], ''token'' \<mapsto> [''secret'']]
     = (svg_image (labelled_badge ''red'' ''*.pdf''), [Stat ''/home/u/Projects/gone''])"
proof -
  let ?q = "[''name'' \<mapsto> [''gone''], ''glob'' \<mapsto> [''*.pdf''], ''token'' \<mapsto> [''secret'']]"
  have n: "Get ?q ''name'' \<noteq> []" and a: "\<not> IsAbs (Get ?q ''name'')"
    and t: "token_passes example_config ?q"
    and r: "resolved_path example_config ?q = ''/home/u/Projects/gone''"
    and g: "Get ?q ''glob'' = ''*.pdf''"
    and s: "os_Stat example_host ''/home/u/Projects/gone'' = None"
    by (simp_all add: eval_request)
  from s r have s': "os_Stat example_host (resolved_path example_config ?q) = None" by simp
  from missing_path_is_404_and_red_badge [OF n t a s'] r g s show ?thesis by simp
qed

subsection \<open>The badge for a glob\<close>




text \<open>
  In the same directory the glob \<^verbatim>\<open>..\<close> is answered with the green badge: the
  pattern joined is the base directory itself, no metacharacter is left in it, and
  \<^verbatim>\<open>filepath.Glob\<close> returns that one path, which lies outside the resolved
  directory.
\<close>

lemma test_glob_parent_example:
  "Join [''/home/u/Projects/[x'', Base ''..''] = ''/home/u/Projects'' \<and>
   \<not> lexically_inside ''/home/u/Projects/[x'' ''/home/u/Projects'' \<and>
   test_handler example_config bracket_host
       [''name'' \<mapsto> [''[x''], ''glob'' \<mapsto> [''..''], ''token'' \<mapsto> [''secret'']]
     = (svg_image (labelled_badge ''green'' ''..''),
        [Stat ''/home/u/Projects/[x'', Glob ''/home/u/Projects''])"
proof -
  let ?q = "[''name'' \<mapsto> [''[x''], ''glob'' \<mapsto> [''..''], ''token'' \<mapsto> [''secret'']]"
  have n: "Get ?q ''name'' \<noteq> []" and t: "token_passes example_config ?q"
    and a: "\<not> IsAbs (Get ?q ''name'')"
    and r: "resolved_path example_config ?q = ''/home/u/Projects/[x''"
    and g: "Get ?q ''glob'' = ''..''"
    and p: "Join [''/home/u/Projects/[x'', Base ''..''] = ''/home/u/Projects''"
    and l: "\<not> lexically_inside ''/home/u/Projects/[x'' ''/home/u/Projects''"
    by (simp_all add: eval_request lexically_inside_def)
  have s: "os_Stat bracket_host ''/home/u/Projects/[x'' = Some \<lparr>IsDir = True\<rparr>"
    and e: "filepath_Glob bracket_host ''/home/u/Projects'' = Some [''/home/u/Projects'']"
    by (simp_all add: eval_request)
  from s r have s': "os_Stat bracket_host (resolved_path example_config ?q)
      = Some \<lparr>IsDir = True\<rparr>" by simp
  from g have g': "Get ?q ''glob'' \<noteq> []" by simp
  have "test_handler example_config bracket_host ?q
     = (svg_image (labelled_badge ''green'' ''..''),
        [Stat ''/home/u/Projects/[x'', Glob ''/home/u/Projects''])"
    using test_present_glob [OF n t a s' g'] by (simp add: r g p e HasSuffix_def)
  with p l show ?thesis by (intro conjI)
qed

subsection \<open>The style rule\<close>

text \<open>
  Claim C8. For every class that is not empty, with a token that passes,
  \<^verbatim>\<open>/style\<close> answers 200 with content type \<^verbatim>\<open>text/css\<close> and a body that is
  exactly the one rule that forces the class to display: a dot, the class as it was
  given, and \<^verbatim>\<open> { display: initial !important; }\<close>. The class is copied whatever
  it contains.
\<close>

theorem style_forces_class_to_display:
  assumes "Get q ''class'' \<noteq> []" and "token_passes cfg q"
  shows "style_handler cfg q =
     (\<lparr>status = 200, header = [(''Content-Type'', ''text/css'')],
       body = ''.'' @ Get q ''class'' @ '' { display: initial !important; }''\<rparr>, [])"
  using assms by (rule style_rule)

theorem style_witness:
  "Get [''class'' \<mapsto> [''foo''], ''token'' \<mapsto> [''secret'']] ''class'' \<noteq> [] \<and>
   token_passes example_config [''class'' \<mapsto> [''foo''], ''token'' \<mapsto> [''secret'']] \<and>
   style_handler example_config [''class'' \<mapsto> [''foo''], ''token'' \<mapsto> [''secret'']]
     = (\<lparr>status = 200, header = [(''Content-Type'', ''text/css'')],
         body = ''.foo { display: initial !important; }''\<rparr>, [])"
proof -
  have c: "Get [''class'' \<mapsto> [''foo''], ''token'' \<mapsto> [''secret'']] ''class'' \<noteq> []"
    and t: "token_passes example_config [''class'' \<mapsto> [''foo''], ''token'' \<mapsto> [''secret'']]"
    by (simp_all add: Get_def token_passes_def example_config_def)
  from style_forces_class_to_display [OF c t] c t show ?thesis by (simp add: Get_def)
qed

subsection \<open>No configured token\<close>

text \<open>
  Claim C9. When the configured token is the empty string the token check passes for
  every request to every endpoint, whatever token it carries or none: no handler answers
  \<^verbatim>\<open>Invalid Token\<close>, and each handler goes on to its remaining checks and answers
  by them. An absolute name meets the path guard; a name that is not absolute has its
  resolved path stat'ed, and \<^verbatim>\<open>/open\<close> answers 404 or starts the opener and
  \<^verbatim>\<open>/test\<close> draws its badge as the file system has it; a class gets its style
  rule. Each handler answers and acts exactly as it does for the same request with a
  matching token under a configuration that has one.
\<close>

theorem empty_token_disables_authentication:
  assumes "token cfg = []"
  shows "token_passes cfg q \<and>
         fst (open_handler cfg h q) \<noteq> plain_error 400 ''Invalid Token'' \<and>
         fst (test_handler cfg h q) \<noteq> plain_error 400 ''Invalid Token'' \<and>
         fst (style_handler cfg q) \<noteq> plain_error 400 ''Invalid Token'' \<and>
         open_handler cfg h q = open_handler (cfg\<lparr>token := t\<rparr>) h (q(''token'' \<mapsto> [t])) \<and>
         test_handler cfg h q = test_handler (cfg\<lparr>token := t\<rparr>) h (q(''token'' \<mapsto> [t])) \<and>
         style_handler cfg q = style_handler (cfg\<lparr>token := t\<rparr>) (q(''token'' \<mapsto> [t])) \<and>
         (IsAbs (Get q ''name'') \<longrightarrow>
            open_handler cfg h q =
              (plain_error 400 ''Invalid folder/file name'',
               [Stdout (''Base path: '' @ Clean (Get q ''name'') @ [CHR 0x0A]),
                Stdout (''Base path: '' @ Get q ''name'' @ [CHR 0x0A])]) \<and>
            test_handler cfg h q =
              (plain_error 400 ''Invalid folder/file name'',
               [Stdout (''Base path: '' @ Clean (Get q ''name'') @ [CHR 0x0A]),
                Stdout (''Base path: '' @ Get q ''name'' @ [CHR 0x0A])])) \<and>
         (Get q ''name'' \<noteq> [] \<and> \<not> IsAbs (Get q ''name'') \<and>
          os_Stat h (resolved_path cfg q) = None \<longrightarrow>
            open_handler cfg h q = (plain_error 404 ''Not Found'', [Stat (resolved_path cfg q)]) \<and>
            test_handler cfg h q =
              (svg_image (labelled_badge ''red'' (Get q ''glob'')), [Stat (resolved_path cfg q)])) \<and>
         (Get q ''name'' \<noteq> [] \<and> \<not> IsAbs (Get q ''name'') \<and>
          (\<exists>i. os_Stat h (resolved_path cfg q) = Some i \<and> \<not> IsDir i) \<longrightarrow>
            open_handler cfg h q = (plain_error 404 ''Not Found'', [Stat (resolved_path cfg q)])) \<and>
         (Get q ''name'' \<noteq> [] \<and> \<not> IsAbs (Get q ''name'') \<and>
          (\<exists>i. os_Stat h (resolved_path cfg q) = Some i \<and> IsDir i) \<longrightarrow>
            snd (open_handler cfg h q) =
              [Stat (resolved_path cfg q), Start (opener h) [resolved_path cfg q]] \<and>
            (cmd_Start h (opener h) [resolved_path cfg q] = None \<longrightarrow>
               fst (open_handler cfg h q) = \<lparr>status = 204, header = [], body = []\<rparr>)) \<and>
         (Get q ''name'' \<noteq> [] \<and> \<not> IsAbs (Get q ''name'') \<and>
          (\<exists>i. os_Stat h (resolved_path cfg q) = Some i) \<and> Get q ''glob'' = [] \<longrightarrow>
            test_handler cfg h q = (svg_image green_svg, [Stat (resolved_path cfg q)])) \<and>
         (Get q ''class'' \<noteq> [] \<longrightarrow>
            style_handler cfg q =
              (\<lparr>status = 200, header = [(''Content-Type'', ''text/css'')],
                body = ''.'' @ Get q ''class'' @ '' { display: initial !important; }''\<rparr>, []))"
proof -
  from assms have p: "token_passes cfg q" by (simp add: token_passes_def)
  have abs: "IsAbs (Get q ''name'') \<longrightarrow>
            open_handler cfg h q =
              (plain_error 400 ''Invalid folder/file name'',
               [Stdout (''Base path: '' @ Clean (Get q ''name'') @ [CHR 0x0A]),
                Stdout (''Base path: '' @ Get q ''name'' @ [CHR 0x0A])]) \<and>
            test_handler cfg h q =
              (plain_error 400 ''Invalid folder/file name'',
               [Stdout (''Base path: '' @ Clean (Get q ''name'') @ [CHR 0x0A]),
                Stdout (''Base path: '' @ Get q ''name'' @ [CHR 0x0A])])"
    using p by (simp add: open_absolute test_absolute)
  have gone: "Get q ''name'' \<noteq> [] \<and> \<not> IsAbs (Get q ''name'') \<and>
          os_Stat h (resolved_path cfg q) = None \<longrightarrow>
            open_handler cfg h q = (plain_error 404 ''Not Found'', [Stat (resolved_path cfg q)]) \<and>
            test_handler cfg h q =
              (svg_image (labelled_badge ''red'' (Get q ''glob'')), [Stat (resolved_path cfg q)])"
    using p by (simp add: open_not_found test_absent)
  have reg: "Get q ''name'' \<noteq> [] \<and> \<not> IsAbs (Get q ''name'') \<and>
          (\<exists>i. os_Stat h (resolved_path cfg q) = Some i \<and> \<not> IsDir i) \<longrightarrow>
            open_handler cfg h q = (plain_error 404 ''Not Found'', [Stat (resolved_path cfg q)])"
    using p open_not_found [of q cfg h] by blast
  have dir: "Get q ''name'' \<noteq> [] \<and> \<not> IsAbs (Get q ''name'') \<and>
          (\<exists>i. os_Stat h (resolved_path cfg q) = Some i \<and> IsDir i) \<longrightarrow>
            snd (open_handler cfg h q) =
              [Stat (resolved_path cfg q), Start (opener h) [resolved_path cfg q]] \<and>
            (cmd_Start h (opener h) [resolved_path cfg q] = None \<longrightarrow>
               fst (open_handler cfg h q) = \<lparr>status = 204, header = [], body = []\<rparr>)"
    using p by (auto simp add: open_launch)
  have green: "Get q ''name'' \<noteq> [] \<and> \<not> IsAbs (Get q ''name'') \<and>
          (\<exists>i. os_Stat h (resolved_path cfg q) = Some i) \<and> Get q ''glob'' = [] \<longrightarrow>
            test_handler cfg h q = (svg_image green_svg, [Stat (resolved_path cfg q)])"
    using p by (auto simp add: test_present_no_glob)
  have css: "Get q ''class'' \<noteq> [] \<longrightarrow>
            style_handler cfg q =
              (\<lparr>status = 200, header = [(''Content-Type'', ''text/css'')],
                body = ''.'' @ Get q ''class'' @ '' { display: initial !important; }''\<rparr>, [])"
    using p by (simp add: style_rule)
  from p open_never_invalid_token [OF p] test_never_invalid_token [OF p]
    style_never_invalid_token [OF p]
    open_token_free [OF assms] test_token_free [OF assms] style_token_free [OF assms]
    abs gone reg dir green css
  show ?thesis by (intro conjI)
qed

text \<open>
  The example installation without a token: requests with a token that nothing was
  configured for, and one with no token at all, get through to the path guard, to the
  file system and to the opener.
\<close>

theorem empty_token_witness:
  "token tokenless_config = [] \<and>
   open_handler tokenless_config example_host
       [''name'' \<mapsto> [''site-a''], ''token'' \<mapsto> [''anything'']]
     = (\<lparr>status = 204, header = [], body = []\<rparr>,
        [Stat ''/home/u/Projects/site-a'', Start ''xdg-open'' [''/home/u/Projects/site-a'']]) \<and>
   open_handler tokenless_config example_host [''name'' \<mapsto> [''site-a'']]
     = (\<lparr>status = 204, header = [], body = []\<rparr>,
        [Stat ''/home/u/Projects/site-a'', Start ''xdg-open'' [''/home/u/Projects/site-a'']]) \<and>
   open_handler tokenless_config example_host
       [''name'' \<mapsto> [''/etc''], ''token'' \<mapsto> [''anything'']]
     = (plain_error 400 ''Invalid folder/file name'',
        [Stdout (''Base path: /etc'' @ [CHR 0x0A]), Stdout (''Base path: /etc'' @ [CHR 0x0A])]) \<and>
   test_handler tokenless_config example_host
       [''name'' \<mapsto> [''gone''], ''glob'' \<mapsto> [''*.pdf''], ''token'' \<mapsto> [''anything'']]
     = (svg_image (labelled_badge ''red'' ''*.pdf''), [Stat ''/home/u/Projects/gone'']) \<and>
   style_handler tokenless_config [''class'' \<mapsto> [''foo''], ''token'' \<mapsto> [''anything'']]
     = (\<lparr>status = 200, header = [(''Content-Type'', ''text/css'')],
         body = ''.foo { display: initial !important; }''\<rparr>, [])"
proof -
  have e: "token tokenless_config = []" by (simp add: tokenless_config_def)
  let ?a = "[''name'' \<mapsto> [''site-a''], ''token'' \<mapsto> [''anything'']]"
  let ?n = "[''name'' \<mapsto> [''site-a'']]"
  let ?r = "[''name'' \<mapsto> [''/etc''], ''token'' \<mapsto> [''anything'']]"
  let ?g = "[''name'' \<mapsto> [''gone''], ''glob'' \<mapsto> [''*.pdf''], ''token'' \<mapsto> [''anything'']]"
  let ?c = "[''class'' \<mapsto> [''foo''], ''token'' \<mapsto> [''anything'']]"
  have s: "os_Stat example_host ''/home/u/Projects/site-a'' = Some \<lparr>IsDir = True\<rparr>"
    and c: "cmd_Start example_host ''xdg-open'' [''/home/u/Projects/site-a''] = None"
    and o: "opener example_host = ''xdg-open''"
    and d: "IsDir \<lparr>IsDir = True\<rparr>"
    and sg: "os_Stat example_host ''/home/u/Projects/gone'' = None"
    by (simp_all add: eval_request)
  have a: "Get ?a ''name'' \<noteq> []" "\<not> IsAbs (Get ?a ''name'')"
    "resolved_path tokenless_config ?a = ''/home/u/Projects/site-a''"
    by (simp_all add: eval_request)
  have 1: "open_handler tokenless_config example_host ?a
     = (\<lparr>status = 204, header = [], body = []\<rparr>,
        [Stat ''/home/u/Projects/site-a'', Start ''xdg-open'' [''/home/u/Projects/site-a'']])"
  proof -
    from empty_token_disables_authentication [OF e, of ?a example_host "''secret''"] a s d
    have "snd (open_handler tokenless_config example_host ?a) =
              [Stat ''/home/u/Projects/site-a'', Start (opener example_host) [''/home/u/Projects/site-a'']] \<and>
            (cmd_Start example_host (opener example_host) [''/home/u/Projects/site-a''] = None \<longrightarrow>
               fst (open_handler tokenless_config example_host ?a) = \<lparr>status = 204, header = [], body = []\<rparr>)"
      unfolding a(3) by blast
    with c o show ?thesis by (simp add: prod_eq_iff)
  qed
  have n: "Get ?n ''name'' \<noteq> []" "\<not> IsAbs (Get ?n ''name'')"
    "resolved_path tokenless_config ?n = ''/home/u/Projects/site-a''"
    by (simp_all add: eval_request)
  have 2: "open_handler tokenless_config example_host ?n
     = (\<lparr>status = 204, header = [], body = []\<rparr>,
        [Stat ''/home/u/Projects/site-a'', Start ''xdg-open'' [''/home/u/Projects/site-a'']])"
  proof -
    from empty_token_disables_authentication [OF e, of ?n example_host "''secret''"] n s d
    have "snd (open_handler tokenless_config example_host ?n) =
              [Stat ''/home/u/Projects/site-a'', Start (opener example_host) [''/home/u/Projects/site-a'']] \<and>
            (cmd_Start example_host (opener example_host) [''/home/u/Projects/site-a''] = None \<longrightarrow>
               fst (open_handler tokenless_config example_host ?n) = \<lparr>status = 204, header = [], body = []\<rparr>)"
      unfolding n(3) by blast
    with c o show ?thesis by (simp add: prod_eq_iff)
  qed
  have r: "IsAbs (Get ?r ''name'')" "Get ?r ''name'' = ''/etc''" "Clean ''/etc'' = ''/etc''"
    by (simp_all add: eval_request)
  have 3: "open_handler tokenless_config example_host ?r
     = (plain_error 400 ''Invalid folder/file name'',
        [Stdout (''Base path: /etc'' @ [CHR 0x0A]), Stdout (''Base path: /etc'' @ [CHR 0x0A])])"
  proof -
    from empty_token_disables_authentication [OF e, of ?r example_host "''secret''"] r(1)
    have "open_handler tokenless_config example_host ?r =
              (plain_error 400 ''Invalid folder/file name'',
               [Stdout (''Base path: '' @ Clean (Get ?r ''name'') @ [CHR 0x0A]),
                Stdout (''Base path: '' @ Get ?r ''name'' @ [CHR 0x0A])])"
      by blast
    then show ?thesis by (simp add: r(2,3))
  qed
  have g: "Get ?g ''name'' \<noteq> []" "\<not> IsAbs (Get ?g ''name'')"
    "resolved_path tokenless_config ?g = ''/home/u/Projects/gone''" "Get ?g ''glob'' = ''*.pdf''"
    by (simp_all add: eval_request)
  have 4: "test_handler tokenless_config example_host ?g
     = (svg_image (labelled_badge ''red'' ''*.pdf''), [Stat ''/home/u/Projects/gone''])"
  proof -
    from empty_token_disables_authentication [OF e, of ?g example_host "''secret''"] g(1,2) sg
    have "test_handler tokenless_config example_host ?g =
              (svg_image (labelled_badge ''red'' (Get ?g ''glob'')), [Stat ''/home/u/Projects/gone''])"
      unfolding g(3) by blast
    then show ?thesis by (simp add: g(4))
  qed
  have k: "Get ?c ''class'' \<noteq> []" "Get ?c ''class'' = ''foo''" by (simp_all add: Get_def)
  have 5: "style_handler tokenless_config ?c
     = (\<lparr>status = 200, header = [(''Content-Type'', ''text/css'')],
         body = ''.foo { display: initial !important; }''\<rparr>, [])"
  proof -
    from empty_token_disables_authentication [OF e, of ?c example_host "''secret''"] k(1)
    have "style_handler tokenless_config ?c =
              (\<lparr>status = 200, header = [(''Content-Type'', ''text/css'')],
                body = ''.'' @ Get ?c ''class'' @ '' { display: initial !important; }''\<rparr>, [])"
      by blast
    then show ?thesis by (simp add: k(2))
  qed
  from e 1 2 3 4 5 show ?thesis by (intro conjI)
qed

subsection \<open>/test does not ask for a directory\<close>

text \<open>
  Claim C10. \<^verbatim>\<open>/test\<close> requires that the stat of the resolved path succeeds and
  never reads whether the path is a directory: its answer stays the same when the
  directory flag of the resolved path is set either way. For a name that passes the
  token check and the path guard and resolves to an existing regular file, with an empty
  glob, \<^verbatim>\<open>/test\<close> answers 200 with the fixed green badge, and \<^verbatim>\<open>/open\<close>
  answers 404 for the same request.
\<close>

theorem test_accepts_a_regular_file:
  assumes "Get q ''name'' \<noteq> []" and "token_passes cfg q" and "\<not> IsAbs (Get q ''name'')"
    and "os_Stat h (resolved_path cfg q) = Some i"
  shows "(\<forall>b. test_handler cfg
              (h\<lparr>os_Stat := (os_Stat h)(resolved_path cfg q \<mapsto> \<lparr>IsDir = b\<rparr>)\<rparr>) q
            = test_handler cfg h q) \<and>
         (\<not> IsDir i \<and> Get q ''glob'' = [] \<longrightarrow>
            test_handler cfg h q =
              (svg_image ''<svg viewBox='0 0 16 16' xmlns='http://www.w3.org/2000/svg'><rect width='16' height='16' fill='green' /></svg>'',
               [Stat (resolved_path cfg q)]) \<and>
            open_handler cfg h q = (plain_error 404 ''Not Found'', [Stat (resolved_path cfg q)]))"
proof (intro conjI allI impI)
  fix b
  show "test_handler cfg (h\<lparr>os_Stat := (os_Stat h)(resolved_path cfg q \<mapsto> \<lparr>IsDir = b\<rparr>)\<rparr>) q
        = test_handler cfg h q"
    using assms by (rule test_ignores_IsDir)
next
  assume "\<not> IsDir i \<and> Get q ''glob'' = []"
  with assms show "test_handler cfg h q =
      (svg_image ''<svg viewBox='0 0 16 16' xmlns='http://www.w3.org/2000/svg'><rect width='16' height='16' fill='green' /></svg>'',
       [Stat (resolved_path cfg q)])"
    by (simp add: test_present_no_glob green_svg_def)
next
  assume "\<not> IsDir i \<and> Get q ''glob'' = []"
  with assms show "open_handler cfg h q = (plain_error 404 ''Not Found'', [Stat (resolved_path cfg q)])"
    by (simp add: open_not_found)
qed

theorem regular_file_witness:
  "os_Stat example_host ''/home/u/Projects/notes.txt'' = Some \<lparr>IsDir = False\<rparr> \<and>
   test_handler example_config example_host
       [''name'' \<mapsto> [''notes.txt''], ''token'' \<mapsto> [''secret'']]
     = (svg_image green_svg, [Stat ''/home/u/Projects/notes.txt'']) \<and>
   open_handler example_config example_host
       [''name'' \<mapsto> [''notes.txt''], ''token'' \<mapsto> [''secret'']]
     = (plain_error 404 ''Not Found'', [Stat ''/home/u/Projects/notes.txt''])"
proof -
  let ?q = "[''name'' \<mapsto> [''notes.txt''], ''token'' \<mapsto> [''secret'']]"
  have n: "Get ?q ''name'' \<noteq> []" and t: "token_passes example_config ?q"
    and a: "\<not> IsAbs (Get ?q ''name'')"
    and r: "resolved_path example_config ?q = ''/home/u/Projects/notes.txt''"
    and g: "Get ?q ''glob'' = []"
    and s: "os_Stat example_host ''/home/u/Projects/notes.txt'' = Some \<lparr>IsDir = False\<rparr>"
    by (simp_all add: eval_request)
  from s r have s': "os_Stat example_host (resolved_path example_config ?q) = Some \<lparr>IsDir = False\<rparr>"
    by simp
  from test_accepts_a_regular_file [OF n t a s'] g
  have "test_handler example_config example_host ?q
         = (svg_image green_svg, [Stat (resolved_path example_config ?q)])"
    and "open_handler example_config example_host ?q
         = (plain_error 404 ''Not Found'', [Stat (resolved_path example_config ?q)])"
    by (simp_all add: green_svg_def)
  with r s show ?thesis by simp
qed

end
